theory Spec2Isabelle
  imports
    Main
    "HOL-Library.Char_ord"
    "HOL-Library.List_Lexorder"
    "HOL-Library.Word"
begin

section \<open>Bytes and strings\<close>

text \<open>
  A Go \<^verbatim>\<open>string\<close> is a sequence of bytes; it is modelled as \<^typ>\<open>string\<close>, whose
  characters are bytes.  Go compares strings bytewise, which is the lexicographic
  order on \<^typ>\<open>char list\<close> over the order of the byte values.
\<close>

text \<open>Go's byte ranges: \<^verbatim>\<open>lo <= c && c <= hi\<close>.\<close>

definition byte_in :: "char \<Rightarrow> char \<Rightarrow> char \<Rightarrow> bool" where
  "byte_in lo hi c \<longleftrightarrow> lo \<le> c \<and> c \<le> hi"

definition isAlnum :: "char \<Rightarrow> bool" where
  "isAlnum c \<longleftrightarrow>
     byte_in CHR ''a'' CHR ''z'' c \<or> byte_in CHR ''A'' CHR ''Z'' c \<or> byte_in CHR ''0'' CHR ''9'' c"

text \<open>\<^verbatim>\<open>strings.Cut(s, sep)\<close> for a separator of one byte.\<close>

fun cut :: "char \<Rightarrow> string \<Rightarrow> string \<times> string \<times> bool" where
  "cut sep [] = ([], [], False)"
| "cut sep (x # xs) =
     (if x = sep then ([], xs, True)
      else (case cut sep xs of (before, after, found) \<Rightarrow> (x # before, after, found)))"

section \<open>Errors\<close>

text \<open>
  \<^verbatim>\<open>ErrorResponse\<close> (\<^verbatim>\<open>librariesio.go\<close>): the response is held by pointer, \<open>None\<close> being
  \<^verbatim>\<open>nil\<close>; the message is the field tagged \<^verbatim>\<open>json:"error"\<close>.
\<close>

type_synonym addr = nat

record ErrorResponse =
  Response :: "addr option"
  Message :: string

text \<open>
  The values of Go's \<^verbatim>\<open>error\<close> interface that the client meets.  \<open>GoError\<close> stands for
  any error of the environment that the client only passes on (a transport failure, a
  failed read of a body, a failed decoding into the caller's container), named by its text.
\<close>

datatype num_error = ErrSyntax | ErrRange

datatype error =
    EscapeError string
  | InvalidSemicolon
  | NumError string string num_error
  | SyntaxError
  | UnmarshalTypeError string
  | UrlError string string string
  | ErrResp ErrorResponse
  | GoError string

section \<open>net/url: escaping\<close>

text \<open>
  The standard library's \<^verbatim>\<open>net/url\<close> escaping routines, which \<^verbatim>\<open>url.Values.Encode\<close>,
  \<^verbatim>\<open>url.ParseQuery\<close> and \<^verbatim>\<open>URL.String\<close> are built from.
\<close>

datatype encoding =
  encodePath | encodePathSegment | encodeHost | encodeZone
  | encodeUserPassword | encodeQueryComponent | encodeFragment

definition upperhex :: "nat \<Rightarrow> char" where
  "upperhex n = ''0123456789ABCDEF'' ! n"

definition ishex :: "char \<Rightarrow> bool" where
  "ishex c \<longleftrightarrow>
     byte_in CHR ''0'' CHR ''9'' c \<or> byte_in CHR ''a'' CHR ''f'' c \<or> byte_in CHR ''A'' CHR ''F'' c"

definition unhex :: "char \<Rightarrow> nat" where
  "unhex c =
     (if byte_in CHR ''0'' CHR ''9'' c then of_char c - 48
      else if byte_in CHR ''a'' CHR ''f'' c then of_char c - 97 + 10
      else if byte_in CHR ''A'' CHR ''F'' c then of_char c - 65 + 10
      else 0)"

definition shouldEscape :: "char \<Rightarrow> encoding \<Rightarrow> bool" where
  "shouldEscape c mode =
     (if isAlnum c then False
      else if (mode = encodeHost \<or> mode = encodeZone) \<and>
              c \<in> set (CHR 0x27 # CHR 0x22 # ''!$&()*+,;=:[]<>'') then False
      else if c \<in> set ''-_.~'' then False
      else if c \<in> set ''$&+,/:;=?@'' \<and> mode = encodePath then c = CHR ''?''
      else if c \<in> set ''$&+,/:;=?@'' \<and> mode = encodePathSegment
        then c \<in> set ''/;,?''
      else if c \<in> set ''$&+,/:;=?@'' \<and> mode = encodeUserPassword
        then c \<in> set ''@/?:''
      else if c \<in> set ''$&+,/:;=?@'' \<and> mode = encodeQueryComponent then True
      else if c \<in> set ''$&+,/:;=?@'' \<and> mode = encodeFragment then False
      else if mode = encodeFragment \<and> c \<in> set ''!()*'' then False
      else True)"

fun escape :: "string \<Rightarrow> encoding \<Rightarrow> string" where
  "escape [] mode = []"
| "escape (c # s) mode =
     (if shouldEscape c mode then
        (if c = CHR '' '' \<and> mode = encodeQueryComponent then CHR ''+'' # escape s mode
         else CHR ''%'' # upperhex (of_char c div 16) # upperhex (of_char c mod 16)
                # escape s mode)
      else c # escape s mode)"

text \<open>
  \<^verbatim>\<open>unescape\<close> for the modes that have no host rules: a \<^verbatim>\<open>%\<close> must be followed by
  two hexadecimal digits, otherwise the result is the \<^verbatim>\<open>EscapeError\<close> of the offending
  bytes; \<^verbatim>\<open>+\<close> stands for a space in a query component only.
\<close>

fun unescape :: "string \<Rightarrow> encoding \<Rightarrow> error + string" where
  "unescape [] mode = Inr []"
| "unescape (c # s) mode =
     (if c = CHR ''%'' then
        (case s of
           h # l # rest \<Rightarrow>
             (if ishex h \<and> ishex l then
                (case unescape rest mode of
                   Inl e \<Rightarrow> Inl e
                 | Inr t \<Rightarrow> Inr (char_of (unhex h * 16 + unhex l) # t))
              else Inl (EscapeError (take 3 (c # s))))
         | _ \<Rightarrow> Inl (EscapeError (take 3 (c # s))))
      else
        (case unescape s mode of
           Inl e \<Rightarrow> Inl e
         | Inr t \<Rightarrow>
             Inr ((if c = CHR ''+'' \<and> mode = encodeQueryComponent then CHR '' '' else c) # t)))"

definition QueryEscape :: "string \<Rightarrow> string" where
  "QueryEscape s = escape s encodeQueryComponent"

definition QueryUnescape :: "string \<Rightarrow> error + string" where
  "QueryUnescape s = unescape s encodeQueryComponent"

section \<open>net/url: query values\<close>

text \<open>
  \<^verbatim>\<open>url.Values\<close> is a Go map from keys to lists of values.  A Go map has no order of
  its own (\<^verbatim>\<open>Encode\<close> sorts the keys), so the map is represented by the association
  list of its entries in increasing key order, each key once.
\<close>

type_synonym Values = "(string \<times> string list) list"

text \<open>\<^verbatim>\<open>m[key] = append(m[key], value)\<close>\<close>

fun values_add :: "Values \<Rightarrow> string \<Rightarrow> string \<Rightarrow> Values" where
  "values_add [] key val = [(key, [val])]"
| "values_add ((k, vs) # m) key val =
     (if key = k then (k, vs @ [val]) # m
      else if key < k then (key, [val]) # (k, vs) # m
      else (k, vs) # values_add m key val)"

text \<open>\<^verbatim>\<open>func (v Values) Set(key, value string) { v[key] = []string{value} }\<close>\<close>

fun Values_Set :: "Values \<Rightarrow> string \<Rightarrow> string \<Rightarrow> Values" where
  "Values_Set [] key val = [(key, [val])]"
| "Values_Set ((k, vs) # m) key val =
     (if key = k then (k, [val]) # m
      else if key < k then (key, [val]) # (k, vs) # m
      else (k, vs) # Values_Set m key val)"

text \<open>\<^verbatim>\<open>func (v Values) Get(key string) string\<close>: the first value of the key, or the empty string.\<close>

definition Values_Get :: "Values \<Rightarrow> string \<Rightarrow> string" where
  "Values_Get v key =
     (case map_of v key of None \<Rightarrow> [] | Some [] \<Rightarrow> [] | Some (x # _) \<Rightarrow> x)"

text \<open>
  \<^verbatim>\<open>parseQuery\<close>: the loop cuts the query at each \<^verbatim>\<open>&\<close>; a setting that holds a
  semicolon, or whose key or value does not unescape, is skipped and the first such error
  is kept.
\<close>

function parseQuery :: "Values \<Rightarrow> error option \<Rightarrow> string \<Rightarrow> Values \<times> error option" where
  "parseQuery m err query =
     (if query = [] then (m, err)
      else
        (case cut CHR ''&'' query of (key, rest, _) \<Rightarrow>
           if CHR '';'' \<in> set key then parseQuery m (Some InvalidSemicolon) rest
           else if key = [] then parseQuery m err rest
           else
             (case cut CHR ''='' key of (key', val, _) \<Rightarrow>
                (case QueryUnescape key' of
                   Inl err1 \<Rightarrow> parseQuery m (if err = None then Some err1 else err) rest
                 | Inr k \<Rightarrow>
                     (case QueryUnescape val of
                        Inl err1 \<Rightarrow> parseQuery m (if err = None then Some err1 else err) rest
                      | Inr v \<Rightarrow> parseQuery (values_add m k v) err rest)))))"
  by pat_completeness auto
termination
proof -
  have cut_le: "length (fst (snd (cut sep s))) \<le> length s" for sep s
    by (induction s) (auto split: prod.splits)
  have cut_shorter: "length after < length s"
    if "(before, after, found) = cut sep s" and "s \<noteq> []" for before after found sep s
    using that cut_le [of sep "tl s"] by (cases s) (auto split: prod.splits if_splits)
  show ?thesis
    by (relation "measure (\<lambda>(m, err, query). length query)") (auto dest: cut_shorter)
qed

declare parseQuery.simps [simp del]

definition ParseQuery :: "string \<Rightarrow> Values \<times> error option" where
  "ParseQuery query = parseQuery [] None query"

text \<open>\<^verbatim>\<open>func (v Values) Encode() string\<close>: \<^verbatim>\<open>key=value\<close> settings joined by \<^verbatim>\<open>&\<close>, keys sorted.\<close>

fun encode_settings :: "string \<Rightarrow> string list \<Rightarrow> string list" where
  "encode_settings keyEscaped [] = []"
| "encode_settings keyEscaped (v # vs) =
     (keyEscaped @ CHR ''='' # QueryEscape v) # encode_settings keyEscaped vs"

fun join_amp :: "string list \<Rightarrow> string" where
  "join_amp [] = []"
| "join_amp [s] = s"
| "join_amp (s # t # ss) = s @ CHR ''&'' # join_amp (t # ss)"

definition Values_Encode :: "Values \<Rightarrow> string" where
  "Values_Encode v = join_amp (concat (map (\<lambda>(k, vs). encode_settings (QueryEscape k) vs) v))"

section \<open>net/url: the URL structure\<close>

record Userinfo =
  username :: string
  password :: string
  passwordSet :: bool

record URL =
  Scheme :: string
  Opaque :: string
  User :: "Userinfo option"
  Host :: string
  Path :: string
  RawPath :: string
  OmitHost :: bool
  ForceQuery :: bool
  RawQuery :: string
  Fragment :: string
  RawFragment :: string

text \<open>\<^verbatim>\<open>func (u *URL) Query() Values { v, _ := ParseQuery(u.RawQuery); return v }\<close>\<close>

definition Query :: "URL \<Rightarrow> Values" where
  "Query u = fst (ParseQuery (RawQuery u))"

section \<open>net/http: requests and responses\<close>

text \<open>
  \<^verbatim>\<open>http.Header\<close> maps canonical keys to lists of values.  A response body is a stream:
  reading it to the end yields the unread bytes and then either the end of the stream or
  the stream's error; what has been read is gone.  The body of a response is an interface
  value and may be \<^verbatim>\<open>nil\<close> (the client of \<^verbatim>\<open>net/http\<close> never returns such a response).
\<close>

type_synonym Header = "string \<rightharpoonup> string list"

record body =
  unread :: string
  failure :: "error option"

record http_Request =
  Method :: string
  URL :: "addr option"
  ReqHeader :: Header
  ReqBody :: "string option"

record http_Response =
  StatusCode :: int
  Header :: Header
  Body :: "body option"
  Request :: "http_Request option"

section \<open>The store\<close>

text \<open>
  The client passes \<^verbatim>\<open>*url.URL\<close> and \<^verbatim>\<open>*http.Response\<close> pointers around and writes through
  them, so the objects live in a store and a pointer is an address (\<open>None\<close> is \<^verbatim>\<open>nil\<close>).
  \<open>next_url\<close> and \<open>next_resp\<close> are the addresses the next allocation takes.
\<close>

record heap =
  urls :: "addr \<Rightarrow> URL"
  resps :: "addr \<Rightarrow> http_Response"
  next_url :: addr
  next_resp :: addr

datatype panic = NilPointerDereference

section \<open>librariesio.go: redactAPIKey\<close>

text \<open>
  \<^verbatim>\<open>
  func redactAPIKey(url *url.URL) *url.URL {
      q := url.Query()
      q.Set("api_key", "REDACTED")
      url.RawQuery = q.Encode()
      return url
  }
  \<close>
  The assignment goes through the pointer: the URL object in the store is overwritten and
  the pointer that came in is the pointer that goes out.
\<close>

definition redactAPIKey :: "heap \<Rightarrow> addr option \<Rightarrow> panic + (heap \<times> addr option)" where
  "redactAPIKey h url =
     (case url of
        None \<Rightarrow> Inl NilPointerDereference
      | Some a \<Rightarrow>
          (let q = Query (urls h a);
               q = Values_Set q ''api_key'' ''REDACTED''
           in Inr (h\<lparr>urls := (urls h)(a := (urls h a)\<lparr>RawQuery := Values_Encode q\<rparr>)\<rparr>, Some a)))"

section \<open>net/url: rendering a URL\<close>

text \<open>
  \<^verbatim>\<open>URL.String\<close> with the helpers it calls.  \<^verbatim>\<open>validEncoded\<close> accepts a raw path or fragment
  whose bytes are sub-delimiters, brackets, percent signs or bytes that need no escaping.
\<close>

definition validEncoded :: "string \<Rightarrow> encoding \<Rightarrow> bool" where
  "validEncoded s mode =
     list_all (\<lambda>c. c \<in> set (CHR 0x27 # ''!$&()*+,;=:@[]%'') \<or> \<not> shouldEscape c mode) s"

definition EscapedPath :: "URL \<Rightarrow> string" where
  "EscapedPath u =
     (if RawPath u \<noteq> [] \<and> validEncoded (RawPath u) encodePath \<and>
         unescape (RawPath u) encodePath = Inr (Path u)
      then RawPath u
      else if Path u = ''*'' then ''*''
      else escape (Path u) encodePath)"

definition EscapedFragment :: "URL \<Rightarrow> string" where
  "EscapedFragment u =
     (if RawFragment u \<noteq> [] \<and> validEncoded (RawFragment u) encodeFragment \<and>
         unescape (RawFragment u) encodeFragment = Inr (Fragment u)
      then RawFragment u
      else escape (Fragment u) encodeFragment)"

definition Userinfo_String :: "Userinfo \<Rightarrow> string" where
  "Userinfo_String ui =
     escape (username ui) encodeUserPassword @
     (if passwordSet ui then CHR '':'' # escape (password ui) encodeUserPassword else [])"

text \<open>The authority part that \<^verbatim>\<open>String\<close> writes after the scheme.\<close>

definition authority_String :: "URL \<Rightarrow> string" where
  "authority_String u =
     (if Scheme u \<noteq> [] \<or> Host u \<noteq> [] \<or> User u \<noteq> None then
        (if OmitHost u \<and> Host u = [] \<and> User u = None then []
         else
           (if Host u \<noteq> [] \<or> Path u \<noteq> [] \<or> User u \<noteq> None then ''//'' else []) @
           (case User u of None \<Rightarrow> [] | Some ui \<Rightarrow> Userinfo_String ui @ ''@'') @
           (if Host u \<noteq> [] then escape (Host u) encodeHost else []))
      else [])"

definition URL_String :: "URL \<Rightarrow> string" where
  "URL_String u =
     (let buf = (if Scheme u \<noteq> [] then Scheme u @ '':'' else []);
          buf =
            (if Opaque u \<noteq> [] then buf @ Opaque u
             else
               (let buf = buf @ authority_String u;
                    path = EscapedPath u;
                    buf = (if path \<noteq> [] \<and> hd path \<noteq> CHR ''/'' \<and> Host u \<noteq> []
                           then buf @ ''/'' else buf);
                    buf = (if buf = [] \<and> CHR '':'' \<in> set (fst (cut CHR ''/'' path))
                           then buf @ ''./'' else buf)
                in buf @ path));
          buf = (if ForceQuery u \<or> RawQuery u \<noteq> [] then buf @ CHR ''?'' # RawQuery u else buf);
          buf = (if Fragment u \<noteq> [] then buf @ CHR ''#'' # EscapedFragment u else buf)
      in buf)"

section \<open>unicode/utf8 and strconv\<close>

text \<open>
  Runes are code points, here natural numbers.  \<^verbatim>\<open>utf8.DecodeRuneInString\<close> yields the
  rune at the head of a string and its width in bytes, \<^verbatim>\<open>(RuneError, 1)\<close> for a byte that
  starts no valid encoding and \<^verbatim>\<open>(RuneError, 0)\<close> for the empty string.
\<close>

definition RuneError :: nat where
  "RuneError = 0xFFFD"

definition continuation :: "nat \<Rightarrow> bool" where
  "continuation b \<longleftrightarrow> 0x80 \<le> b \<and> b \<le> 0xBF"

definition DecodeRuneInString :: "string \<Rightarrow> nat \<times> nat" where
  "DecodeRuneInString s =
     (case map of_char s of
        [] \<Rightarrow> (RuneError, 0)
      | s0 # rest \<Rightarrow>
          if s0 < 0x80 then (s0, 1)
          else if s0 < 0xC2 \<or> 0xF4 < s0 then (RuneError, 1)
          else
            (let sz = (if s0 < 0xE0 then 2 else if s0 < 0xF0 then 3 else 4 :: nat);
                 lo = (if s0 = 0xE0 then 0xA0 else if s0 = 0xF0 then 0x90 else 0x80);
                 hi = (if s0 = 0xED then 0x9F else if s0 = 0xF4 then 0x8F else 0xBF)
             in if length s < sz then (RuneError, 1)
                else if rest ! 0 < lo \<or> hi < rest ! 0 then (RuneError, 1)
                else if sz = 2 then (s0 mod 32 * 64 + rest ! 0 mod 64, 2)
                else if \<not> continuation (rest ! 1) then (RuneError, 1)
                else if sz = 3
                  then (s0 mod 16 * 4096 + rest ! 0 mod 64 * 64 + rest ! 1 mod 64, 3)
                else if \<not> continuation (rest ! 2) then (RuneError, 1)
                else (s0 mod 8 * 262144 + rest ! 0 mod 64 * 4096 + rest ! 1 mod 64 * 64
                        + rest ! 2 mod 64, 4)))"

text \<open>\<^verbatim>\<open>utf8.AppendRune\<close>: a surrogate or a rune beyond U+10FFFF is written as U+FFFD.\<close>

definition EncodeRune :: "nat \<Rightarrow> string" where
  "EncodeRune r =
     (if r < 0x80 then [char_of r]
      else if r < 0x800 then [char_of (0xC0 + r div 64), char_of (0x80 + r mod 64)]
      else if 0x10FFFF < r \<or> (0xD800 \<le> r \<and> r \<le> 0xDFFF) then [CHR 0xEF, CHR 0xBF, CHR 0xBD]
      else if r < 0x10000
        then [char_of (0xE0 + r div 4096), char_of (0x80 + r div 64 mod 64),
              char_of (0x80 + r mod 64)]
      else [char_of (0xF0 + r div 262144), char_of (0x80 + r div 4096 mod 64),
            char_of (0x80 + r div 64 mod 64), char_of (0x80 + r mod 64)])"

text \<open>
  \<^verbatim>\<open>strconv.IsPrint\<close>: Latin-1 is decided by ranges; beyond U+00FF the answer comes from
  the Unicode tables of the standard library, which are a parameter (\<open>table\<close>) here.
\<close>

definition IsPrint :: "(nat \<Rightarrow> bool) \<Rightarrow> nat \<Rightarrow> bool" where
  "IsPrint table r =
     (if r \<le> 0xFF then
        (if 0x20 \<le> r \<and> r \<le> 0x7E then True
         else if 0xA1 \<le> r \<and> r \<le> 0xFF then r \<noteq> 0xAD
         else False)
      else table r)"

definition lowerhex :: "nat \<Rightarrow> char" where
  "lowerhex n = ''0123456789abcdef'' ! n"

text \<open>The \<open>n\<close> lowest hexadecimal digits of \<open>r\<close>, most significant first.\<close>

fun hexdigits :: "nat \<Rightarrow> nat \<Rightarrow> string" where
  "hexdigits 0 r = []"
| "hexdigits (Suc n) r = hexdigits n (r div 16) @ [lowerhex (r mod 16)]"

definition backslash :: char where
  "backslash = CHR 0x5C"

definition dquote :: char where
  "dquote = CHR 0x22"

text \<open>\<^verbatim>\<open>appendEscapedRune\<close> as \<^verbatim>\<open>strconv.Quote\<close> calls it: double quotes, not ASCII-only.\<close>

definition appendEscapedRune :: "(nat \<Rightarrow> bool) \<Rightarrow> nat \<Rightarrow> string" where
  "appendEscapedRune table r =
     (if r = of_char dquote \<or> r = of_char backslash then [backslash, char_of r]
      else if IsPrint table r then EncodeRune r
      else if r = 7 then [backslash, CHR ''a'']
      else if r = 8 then [backslash, CHR ''b'']
      else if r = 12 then [backslash, CHR ''f'']
      else if r = 10 then [backslash, CHR ''n'']
      else if r = 13 then [backslash, CHR ''r'']
      else if r = 9 then [backslash, CHR ''t'']
      else if r = 11 then [backslash, CHR ''v'']
      else if r < 0x20 \<or> r = 0x7F then backslash # CHR ''x'' # hexdigits 2 r
      else if r < 0x10000 then backslash # CHR ''u'' # hexdigits 4 r
      else backslash # CHR ''U'' # hexdigits 8 r)"

text \<open>
  The loop of \<^verbatim>\<open>appendQuotedWith\<close> steps through the string by the width of each rune;
  \<open>skip\<close> counts the bytes of the current rune that are still to be passed over.
\<close>

fun quoted_runes :: "(nat \<Rightarrow> bool) \<Rightarrow> nat \<Rightarrow> string \<Rightarrow> string" where
  "quoted_runes table skip [] = []"
| "quoted_runes table skip (c # s) =
     (if 0 < skip then quoted_runes table (skip - 1) s
      else
        (case DecodeRuneInString (c # s) of (r, width) \<Rightarrow>
           (if width = 1 \<and> r = RuneError then backslash # CHR ''x'' # hexdigits 2 (of_char c)
            else appendEscapedRune table r)
           @ quoted_runes table (width - 1) s))"

definition Quote :: "(nat \<Rightarrow> bool) \<Rightarrow> string \<Rightarrow> string" where
  "Quote table s = dquote # quoted_runes table 0 s @ [dquote]"

text \<open>The verb \<^verbatim>\<open>%d\<close> of \<^verbatim>\<open>fmt\<close> on an \<^verbatim>\<open>int\<close>: decimal digits, a minus sign when negative.\<close>

function decimal :: "nat \<Rightarrow> string" where
  "decimal n = (if n < 10 then [char_of (48 + n)] else decimal (n div 10) @ [char_of (48 + n mod 10)])"
  by pat_completeness auto
termination
  by (relation "measure (\<lambda>n. n)") auto

declare decimal.simps [simp del]

definition fmt_d :: "int \<Rightarrow> string" where
  "fmt_d i = (if i < 0 then CHR ''-'' # decimal (nat (- i)) else decimal (nat i))"

section \<open>librariesio.go: ErrorResponse.Error\<close>

text \<open>
  \<^verbatim>\<open>
  func (r *ErrorResponse) Error() string {
      return fmt.Sprintf("%v %v: %d %q",
          r.Response.Request.Method, redactAPIKey(r.Response.Request.URL),
          r.Response.StatusCode, r.Message)
  }
  \<close>
  The arguments are evaluated from left to right; a \<^verbatim>\<open>nil\<close> response, request or URL is a
  nil pointer dereference.  The call of \<^verbatim>\<open>redactAPIKey\<close> writes to the store, so the method
  returns the store with the string.  \<^verbatim>\<open>%v\<close> prints the method as it is and the URL by its
  \<^verbatim>\<open>String\<close> method, \<^verbatim>\<open>%q\<close> prints the message by \<^verbatim>\<open>strconv.Quote\<close>.
\<close>

definition Error :: "(nat \<Rightarrow> bool) \<Rightarrow> heap \<Rightarrow> ErrorResponse \<Rightarrow> panic + (heap \<times> string)" where
  "Error table h r =
     (case Response r of
        None \<Rightarrow> Inl NilPointerDereference
      | Some ra \<Rightarrow>
          (case Request (resps h ra) of
             None \<Rightarrow> Inl NilPointerDereference
           | Some req \<Rightarrow>
               (case redactAPIKey h (URL req) of
                  Inl p \<Rightarrow> Inl p
                | Inr (h', url) \<Rightarrow>
                    Inr (h',
                      Method req @ '' '' @
                      (case url of None \<Rightarrow> ''<nil>'' | Some a \<Rightarrow> URL_String (urls h' a)) @
                      '': '' @ fmt_d (StatusCode (resps h' ra)) @ '' '' @
                      Quote table (Message r)))))"

section \<open>encoding/json: reading a document\<close>

text \<open>
  \<^verbatim>\<open>json.Unmarshal\<close> first checks that its input is one well-formed JSON value and only
  then decodes it.  The document is read here in two steps: the bytes are cut into tokens,
  and a stack machine builds the value from the tokens.  Members of an object are kept in
  the order of the text, with their duplicates, because the decoder handles them in that
  order.
\<close>

datatype json =
    JNull
  | JBool bool
  | JNumber string
  | JString string
  | JArray "json list"
  | JObject "(string \<times> json) list"

datatype token = LBrace | RBrace | LBracket | RBracket | Colon | Comma | Lit json

definition isSpace :: "char \<Rightarrow> bool" where
  "isSpace c \<longleftrightarrow> c = CHR '' '' \<or> c = CHR 0x09 \<or> c = CHR 0x0D \<or> c = CHR 0x0A"

definition isDigit :: "char \<Rightarrow> bool" where
  "isDigit c = byte_in CHR ''0'' CHR ''9'' c"

text \<open>
  The bytes of a string literal after its opening quote, up to the closing quote: a
  control character ends the scan with an error, a backslash protects the byte after it.
\<close>

fun scan_string :: "bool \<Rightarrow> string \<Rightarrow> string option" where
  "scan_string esc [] = None"
| "scan_string esc (c # s) =
     (if (of_char c :: nat) < 0x20 then None
      else if \<not> esc \<and> c = dquote then Some []
      else map_option ((#) c) (scan_string (\<not> esc \<and> c = backslash) s))"

definition hex4 :: "string \<Rightarrow> nat option" where
  "hex4 s =
     (case s of
        a # b # c # d # _ \<Rightarrow>
          if ishex a \<and> ishex b \<and> ishex c \<and> ishex d
          then Some (((unhex a * 16 + unhex b) * 16 + unhex c) * 16 + unhex d)
          else None
      | _ \<Rightarrow> None)"

definition simple_escape :: "char \<Rightarrow> char option" where
  "simple_escape e =
     (if e = dquote \<or> e = backslash \<or> e = CHR ''/'' then Some e
      else if e = CHR ''b'' then Some (CHR 0x08)
      else if e = CHR ''f'' then Some (CHR 0x0C)
      else if e = CHR ''n'' then Some (CHR 0x0A)
      else if e = CHR ''r'' then Some (CHR 0x0D)
      else if e = CHR ''t'' then Some (CHR 0x09)
      else None)"

text \<open>\<^verbatim>\<open>utf16.DecodeRune\<close>: the code point of a surrogate pair, U+FFFD for anything else.\<close>

definition utf16_DecodeRune :: "nat \<Rightarrow> nat \<Rightarrow> nat" where
  "utf16_DecodeRune r1 r2 =
     (if 0xD800 \<le> r1 \<and> r1 < 0xDC00 \<and> 0xDC00 \<le> r2 \<and> r2 < 0xE000
      then (r1 - 0xD800) * 1024 + (r2 - 0xDC00) + 0x10000
      else RuneError)"

text \<open>
  \<^verbatim>\<open>unquote\<close>: the string that a literal denotes.  Escapes are replaced, a \<^verbatim>\<open>\u\<close> escape
  of a surrogate is joined with the escape after it when the two form a pair and is U+FFFD
  otherwise, and a byte that is not valid UTF-8 becomes U+FFFD.
\<close>

fun unquote :: "string \<Rightarrow> string option" where
  "unquote [] = Some []"
| "unquote (c # r) =
     (if c = backslash then
        (case r of
           [] \<Rightarrow> None
         | e # r' \<Rightarrow>
             if e = CHR ''u'' then
               (case hex4 r' of
                  None \<Rightarrow> None
                | Some rr \<Rightarrow>
                    if 0xD800 \<le> rr \<and> rr < 0xE000 then
                      (case (if take 2 (drop 4 r') = [backslash, CHR ''u'']
                             then hex4 (drop 6 r') else None) of
                         None \<Rightarrow> map_option ((@) (EncodeRune RuneError)) (unquote (drop 4 r'))
                       | Some rr1 \<Rightarrow>
                           if utf16_DecodeRune rr rr1 \<noteq> RuneError
                           then map_option ((@) (EncodeRune (utf16_DecodeRune rr rr1)))
                                  (unquote (drop 10 r'))
                           else map_option ((@) (EncodeRune RuneError)) (unquote (drop 4 r')))
                    else map_option ((@) (EncodeRune rr)) (unquote (drop 4 r')))
             else
               (case simple_escape e of
                  None \<Rightarrow> None
                | Some b \<Rightarrow> map_option ((#) b) (unquote r')))
      else if (of_char c :: nat) < 0x80 then map_option ((#) c) (unquote r)
      else
        (case DecodeRuneInString (c # r) of
           (rr, width) \<Rightarrow> map_option ((@) (EncodeRune rr)) (unquote (drop (width - 1) r))))"

text \<open>
  The text of a number literal at the head of the input: an optional minus sign, \<^verbatim>\<open>0\<close> or
  digits without a leading zero, an optional fraction and an optional exponent.
\<close>

definition scan_number :: "string \<Rightarrow> string option" where
  "scan_number s =
     (let sign = (if take 1 s = ''-'' then ''-'' else []);
          s1 = drop (length sign) s;
          ip = (if take 1 s1 = ''0'' then ''0'' else takeWhile isDigit s1);
          s2 = drop (length ip) s1;
          frac = (if take 1 s2 = ''.'' then CHR ''.'' # takeWhile isDigit (drop 1 s2) else []);
          s3 = drop (length frac) s2;
          sg = (if take 1 (drop 1 s3) = ''+'' \<or> take 1 (drop 1 s3) = ''-''
                then take 1 (drop 1 s3) else []);
          ex = (if take 1 s3 = ''e'' \<or> take 1 s3 = ''E''
                then take 1 s3 @ sg @ takeWhile isDigit (drop (1 + length sg) s3) else [])
      in if ip = [] \<or> frac = ''.'' \<or> (ex \<noteq> [] \<and> \<not> isDigit (last ex)) then None
         else Some (sign @ ip @ frac @ ex))"

definition emit :: "token \<Rightarrow> token list option \<Rightarrow> token list option" where
  "emit t rest = map_option ((#) t) rest"

fun tokenize :: "string \<Rightarrow> token list option" where
  "tokenize [] = Some []"
| "tokenize (c # r) =
     (if isSpace c then tokenize r
      else if c = CHR ''{'' then emit LBrace (tokenize r)
      else if c = CHR ''}'' then emit RBrace (tokenize r)
      else if c = CHR ''['' then emit LBracket (tokenize r)
      else if c = CHR '']'' then emit RBracket (tokenize r)
      else if c = CHR '':'' then emit Colon (tokenize r)
      else if c = CHR '','' then emit Comma (tokenize r)
      else if c = dquote then
        (case scan_string False r of
           None \<Rightarrow> None
         | Some raw \<Rightarrow>
             (case unquote raw of
                None \<Rightarrow> None
              | Some str \<Rightarrow> emit (Lit (JString str)) (tokenize (drop (Suc (length raw)) r))))
      else if take 4 (c # r) = ''true'' then emit (Lit (JBool True)) (tokenize (drop 3 r))
      else if take 5 (c # r) = ''false'' then emit (Lit (JBool False)) (tokenize (drop 4 r))
      else if take 4 (c # r) = ''null'' then emit (Lit JNull) (tokenize (drop 3 r))
      else
        (case scan_number (c # r) of
           None \<Rightarrow> None
         | Some lit \<Rightarrow> emit (Lit (JNumber lit)) (tokenize (drop (length lit - 1) r))))"

text \<open>
  The stack machine.  A frame is an array or an object under construction (an object frame
  holds the key whose value is awaited); \<open>expect\<close> says which tokens may come next.  The
  scanner of \<^verbatim>\<open>encoding/json\<close> refuses a nesting deeper than 10000.
\<close>

datatype frame = ArrayFrame "json list" | ObjectFrame "(string \<times> json) list" "string option"

datatype expect =
  ExpValue | ExpValueOrEnd | ExpKeyOrEnd | ExpKey | ExpColon | ExpCommaOrEnd | ExpEOF

type_synonym parse_state = "frame list \<times> expect \<times> json option"

definition maxNestingDepth :: nat where
  "maxNestingDepth = 10000"

definition put_value :: "json \<Rightarrow> frame list \<Rightarrow> parse_state option" where
  "put_value v st =
     (case st of
        [] \<Rightarrow> Some ([], ExpEOF, Some v)
      | ArrayFrame els # st' \<Rightarrow> Some (ArrayFrame (els @ [v]) # st', ExpCommaOrEnd, None)
      | ObjectFrame ms (Some k) # st' \<Rightarrow>
          Some (ObjectFrame (ms @ [(k, v)]) None # st', ExpCommaOrEnd, None)
      | ObjectFrame ms None # st' \<Rightarrow> None)"

definition push_frame :: "frame \<Rightarrow> frame list \<Rightarrow> expect \<Rightarrow> parse_state option" where
  "push_frame f st e = (if length st < maxNestingDepth then Some (f # st, e, None) else None)"

definition begin_value :: "token \<Rightarrow> frame list \<Rightarrow> parse_state option" where
  "begin_value t st =
     (case t of
        Lit v \<Rightarrow> put_value v st
      | LBracket \<Rightarrow> push_frame (ArrayFrame []) st ExpValueOrEnd
      | LBrace \<Rightarrow> push_frame (ObjectFrame [] None) st ExpKeyOrEnd
      | _ \<Rightarrow> None)"

definition set_key :: "token \<Rightarrow> frame list \<Rightarrow> parse_state option" where
  "set_key t st =
     (case (t, st) of
        (Lit (JString k), ObjectFrame ms None # st') \<Rightarrow>
          Some (ObjectFrame ms (Some k) # st', ExpColon, None)
      | _ \<Rightarrow> None)"

definition end_container :: "token \<Rightarrow> frame list \<Rightarrow> parse_state option" where
  "end_container t st =
     (case (t, st) of
        (RBracket, ArrayFrame els # st') \<Rightarrow> put_value (JArray els) st'
      | (RBrace, ObjectFrame ms None # st') \<Rightarrow> put_value (JObject ms) st'
      | _ \<Rightarrow> None)"

definition parse_step :: "token \<Rightarrow> parse_state \<Rightarrow> parse_state option" where
  "parse_step t s =
     (case s of (st, e, res) \<Rightarrow>
        (case e of
           ExpEOF \<Rightarrow> None
         | ExpColon \<Rightarrow> if t = Colon then Some (st, ExpValue, None) else None
         | ExpKey \<Rightarrow> set_key t st
         | ExpKeyOrEnd \<Rightarrow> if t = RBrace then end_container t st else set_key t st
         | ExpCommaOrEnd \<Rightarrow>
             if t = Comma then
               (case st of
                  ArrayFrame els # st' \<Rightarrow> Some (st, ExpValue, None)
                | ObjectFrame ms k # st' \<Rightarrow> Some (st, ExpKey, None)
                | [] \<Rightarrow> None)
             else end_container t st
         | ExpValue \<Rightarrow> begin_value t st
         | ExpValueOrEnd \<Rightarrow> if t = RBracket then end_container t st else begin_value t st))"

fun parse_tokens :: "token list \<Rightarrow> parse_state \<Rightarrow> json option" where
  "parse_tokens [] s = (case s of (st, e, res) \<Rightarrow> if e = ExpEOF then res else None)"
| "parse_tokens (t # ts) s =
     (case parse_step t s of None \<Rightarrow> None | Some s' \<Rightarrow> parse_tokens ts s')"

definition json_parse :: "string \<Rightarrow> json option" where
  "json_parse data =
     (case tokenize data of None \<Rightarrow> None | Some ts \<Rightarrow> parse_tokens ts ([], ExpValue, None))"

section \<open>encoding/json: decoding into an ErrorResponse\<close>

text \<open>
  \<^verbatim>\<open>
  type ErrorResponse struct {
      Response *http.Response
      Message  string `json:"error"`
  }
  \<close>
  Both fields are exported and neither is tagged \<^verbatim>\<open>json:"-"\<close>, so the decoder fills both:
  \<^verbatim>\<open>Message\<close> from the member named \<^verbatim>\<open>error\<close> and \<^verbatim>\<open>Response\<close> from the member named
  \<^verbatim>\<open>Response\<close>.  A member name selects a field when it is the field's name, or else when the
  two are equal under Unicode simple case folding.  Besides the ASCII letters only U+017F
  (long s) and U+212A (Kelvin sign) fold to an ASCII letter, so \<open>foldName\<close> gives the
  folded name when it is ASCII and \<open>None\<close> when it is not.
\<close>

fun fold_runes :: "nat \<Rightarrow> string \<Rightarrow> string option" where
  "fold_runes skip [] = Some []"
| "fold_runes skip (c # s) =
     (if 0 < skip then fold_runes (skip - 1) s
      else if (of_char c :: nat) < 0x80 then
        map_option ((#) (if byte_in CHR ''a'' CHR ''z'' c then char_of (of_char c - 32 :: nat) else c))
          (fold_runes 0 s)
      else
        (case DecodeRuneInString (c # s) of
           (r, width) \<Rightarrow>
             if r = 0x17F then map_option ((#) CHR ''S'') (fold_runes (width - 1) s)
             else if r = 0x212A then map_option ((#) CHR ''K'') (fold_runes (width - 1) s)
             else None))"

definition foldName :: "string \<Rightarrow> string option" where
  "foldName name = fold_runes 0 name"

datatype field = Field_Response | Field_Message

definition lookup_field :: "string \<Rightarrow> field option" where
  "lookup_field key =
     (if key = ''Response'' then Some Field_Response
      else if key = ''error'' then Some Field_Message
      else if foldName key = Some ''RESPONSE'' then Some Field_Response
      else if foldName key = Some ''ERROR'' then Some Field_Message
      else None)"

definition kind :: "json \<Rightarrow> string" where
  "kind v =
     (case v of
        JNull \<Rightarrow> ''null'' | JBool b \<Rightarrow> ''bool'' | JNumber n \<Rightarrow> ''number''
      | JString s \<Rightarrow> ''string'' | JArray vs \<Rightarrow> ''array'' | JObject ms \<Rightarrow> ''object'')"

text \<open>The decoder keeps the first \<^verbatim>\<open>UnmarshalTypeError\<close> and goes on.\<close>

definition saveError :: "error option \<Rightarrow> error \<Rightarrow> error option" where
  "saveError saved e = (case saved of None \<Rightarrow> Some e | Some e0 \<Rightarrow> Some e0)"

text \<open>
  A value for the string field \<^verbatim>\<open>Message\<close>: a string is stored, \<^verbatim>\<open>null\<close> changes nothing, any
  other value is a type error and changes nothing.
\<close>

definition store_Message :: "json \<Rightarrow> ErrorResponse \<Rightarrow> error option \<Rightarrow> ErrorResponse \<times> error option" where
  "store_Message v e saved =
     (case v of
        JString s \<Rightarrow> (e\<lparr>Message := s\<rparr>, saved)
      | JNull \<Rightarrow> (e, saved)
      | _ \<Rightarrow> (e, saveError saved (UnmarshalTypeError (kind v))))"

text \<open>
  A value for the pointer field \<^verbatim>\<open>Response\<close>: \<^verbatim>\<open>null\<close> sets the pointer to \<^verbatim>\<open>nil\<close>.  For any
  other value a \<^verbatim>\<open>nil\<close> pointer is first set to a new zero response; an object is then
  decoded into the response the pointer refers to, in place, and any other value is a type
  error.  How an object fills the fields of an \<^verbatim>\<open>http.Response\<close> is the business of the
  standard library's reflection over that type and is a parameter here (\<open>into_Response\<close>).
\<close>

type_synonym response_decoder =
  "(string \<times> json) list \<Rightarrow> http_Response \<Rightarrow> http_Response \<times> error option"

definition zero_Response :: http_Response where
  "zero_Response = \<lparr>StatusCode = 0, Header = Map.empty, Body = None, Request = None\<rparr>"

definition store_Response ::
  "response_decoder \<Rightarrow> json \<Rightarrow> heap \<Rightarrow> ErrorResponse \<Rightarrow> error option
     \<Rightarrow> heap \<times> ErrorResponse \<times> error option" where
  "store_Response into_Response v h e saved =
     (if v = JNull then (h, e\<lparr>Response := None\<rparr>, saved)
      else
        (let (h1, a) =
               (case Response e of
                  Some a \<Rightarrow> (h, a)
                | None \<Rightarrow>
                    (h\<lparr>resps := (resps h)(next_resp h := zero_Response),
                       next_resp := Suc (next_resp h)\<rparr>, next_resp h));
             e1 = e\<lparr>Response := Some a\<rparr>
         in case v of
              JObject ms \<Rightarrow>
                (case into_Response ms (resps h1 a) of
                   (r, None) \<Rightarrow> (h1\<lparr>resps := (resps h1)(a := r)\<rparr>, e1, saved)
                 | (r, Some err) \<Rightarrow> (h1\<lparr>resps := (resps h1)(a := r)\<rparr>, e1, saveError saved err))
            | _ \<Rightarrow> (h1, e1, saveError saved (UnmarshalTypeError (kind v)))))"

text \<open>The members of an object, in the order of the text; unknown names are skipped.\<close>

fun object_into_ErrorResponse ::
  "response_decoder \<Rightarrow> (string \<times> json) list \<Rightarrow> heap \<Rightarrow> ErrorResponse \<Rightarrow> error option
     \<Rightarrow> heap \<times> ErrorResponse \<times> error option" where
  "object_into_ErrorResponse into_Response [] h e saved = (h, e, saved)"
| "object_into_ErrorResponse into_Response ((key, v) # ms) h e saved =
     (case lookup_field key of
        None \<Rightarrow> object_into_ErrorResponse into_Response ms h e saved
      | Some Field_Message \<Rightarrow>
          (case store_Message v e saved of
             (e', saved') \<Rightarrow> object_into_ErrorResponse into_Response ms h e' saved')
      | Some Field_Response \<Rightarrow>
          (case store_Response into_Response v h e saved of
             (h', e', saved') \<Rightarrow> object_into_ErrorResponse into_Response ms h' e' saved'))"

text \<open>
  \<^verbatim>\<open>json.Unmarshal(data, errResp)\<close>: a syntax error leaves the target untouched; \<^verbatim>\<open>null\<close>
  changes nothing; an object is decoded member by member; any other value is a type error.
\<close>

definition Unmarshal_ErrorResponse ::
  "response_decoder \<Rightarrow> string \<Rightarrow> heap \<Rightarrow> ErrorResponse \<Rightarrow> heap \<times> ErrorResponse \<times> error option" where
  "Unmarshal_ErrorResponse into_Response data h e =
     (case json_parse data of
        None \<Rightarrow> (h, e, Some SyntaxError)
      | Some JNull \<Rightarrow> (h, e, None)
      | Some (JObject ms) \<Rightarrow> object_into_ErrorResponse into_Response ms h e None
      | Some v \<Rightarrow> (h, e, Some (UnmarshalTypeError (kind v))))"

section \<open>librariesio.go: CheckResponse\<close>

text \<open>
  \<^verbatim>\<open>io.ReadAll\<close> drains the stream.  The slice it returns is never \<^verbatim>\<open>nil\<close>, also when no
  byte was read; \<open>None\<close> would be the \<^verbatim>\<open>nil\<close> slice.
\<close>

definition ReadAll :: "body \<Rightarrow> body \<times> string option \<times> error option" where
  "ReadAll b = (b\<lparr>unread := []\<rparr>, Some (unread b), failure b)"

text \<open>
  \<^verbatim>\<open>
  func CheckResponse(resp *http.Response) error {
      if code := resp.StatusCode; 200 <= code && code <= 299 {
          return nil
      }
      errResp := &ErrorResponse{Response: resp}
      data, err := io.ReadAll(resp.Body)
      if err == nil && data != nil {
          json.Unmarshal(data, errResp)
      }
      return errResp
  }
  \<close>
  \<open>resp\<close> is the address of the response, a pointer that is not \<^verbatim>\<open>nil\<close>.  Reading a \<^verbatim>\<open>nil\<close>
  body is a nil dereference.  The error that \<^verbatim>\<open>json.Unmarshal\<close> returns is dropped.
\<close>

definition CheckResponse ::
  "response_decoder \<Rightarrow> heap \<Rightarrow> addr \<Rightarrow> panic + (heap \<times> error option)" where
  "CheckResponse into_Response h resp =
     (let code = StatusCode (resps h resp) in
      if 200 \<le> code \<and> code \<le> 299 then Inr (h, None)
      else
        (let errResp = \<lparr>Response = Some resp, Message = []\<rparr> in
         case Body (resps h resp) of
           None \<Rightarrow> Inl NilPointerDereference
         | Some b \<Rightarrow>
             (case ReadAll b of
                (b', data, err) \<Rightarrow>
                  (let h1 = h\<lparr>resps := (resps h)(resp := (resps h resp)\<lparr>Body := Some b'\<rparr>)\<rparr> in
                   case (err, data) of
                     (None, Some bytes) \<Rightarrow>
                       (case Unmarshal_ErrorResponse into_Response bytes h1 errResp of
                          (h2, errResp', _) \<Rightarrow> Inr (h2, Some (ErrResp errResp')))
                   | _ \<Rightarrow> Inr (h1, Some (ErrResp errResp))))))"

section \<open>Auxiliary notions for the proofs\<close>

text \<open>
  The association lists that \<^verbatim>\<open>ParseQuery\<close> builds are in canonical form: keys strictly
  increasing, no key with an empty list of values.  \<open>settings\<close> lists the
  \<^verbatim>\<open>key=value\<close> settings of a map in the order \<^verbatim>\<open>Encode\<close> writes them.
\<close>

definition canonical :: "Values \<Rightarrow> bool" where
  "canonical v \<longleftrightarrow> sorted_wrt (<) (map fst v) \<and> (\<forall>vs \<in> snd ` set v. vs \<noteq> [])"

definition settings :: "Values \<Rightarrow> (string \<times> string) list" where
  "settings v = concat (map (\<lambda>(k, vs). map (Pair k) vs) v)"

definition encode_setting :: "string \<times> string \<Rightarrow> string" where
  "encode_setting p = QueryEscape (fst p) @ CHR ''='' # QueryEscape (snd p)"

text \<open>
  The request of the specification's example,
  \<^verbatim>\<open>GET https://service/api/pypi/poyo?api_key=SECRET\<close>, answered with status 400.
\<close>

definition example_URL :: URL where
  "example_URL =
     \<lparr>Scheme = ''https'', Opaque = [], User = None, Host = ''service'',
      Path = ''/api/pypi/poyo'', RawPath = [], OmitHost = False, ForceQuery = False,
      RawQuery = ''api_key=SECRET'', Fragment = [], RawFragment = []\<rparr>"

definition example_request :: http_Request where
  "example_request = \<lparr>Method = ''GET'', URL = Some 0, ReqHeader = Map.empty, ReqBody = None\<rparr>"

definition example_response :: http_Response where
  "example_response =
     \<lparr>StatusCode = 400, Header = Map.empty,
      Body = Some \<lparr>unread = [], failure = None\<rparr>, Request = Some example_request\<rparr>"

definition example_heap :: heap where
  "example_heap =
     \<lparr>urls = (\<lambda>_. example_URL), resps = (\<lambda>_. example_response), next_url = 1, next_resp = 1\<rparr>"

definition example_error :: ErrorResponse where
  "example_error = \<lparr>Response = Some 0, Message = ''Nope Nope Nope''\<rparr>"

definition example_rendering :: string where
  "example_rendering =
     ''GET https://service/api/pypi/poyo?api_key=REDACTED: 400 '' @ dquote # ''Nope Nope Nope'' @ [dquote]"

definition redacted_heap :: heap where
  "redacted_heap =
     example_heap\<lparr>urls := (urls example_heap)(0 := example_URL\<lparr>RawQuery := ''api_key=REDACTED''\<rparr>)\<rparr>"

definition no_table :: "nat \<Rightarrow> bool" where
  "no_table r = False"

section \<open>Facts about escaping and query values\<close>

lemma hex_table:
  "list_all (\<lambda>k. unhex (upperhex k) = k \<and> ishex (upperhex k) \<and>
      upperhex k \<notin> {CHR ''&'', CHR '';'', CHR ''='', CHR ''%'', CHR ''+''}) [0..<16]"
  by code_simp

lemma upperhex_props:
  assumes "k < 16"
  shows "unhex (upperhex k) = k" and "ishex (upperhex k)"
    and "upperhex k \<notin> {CHR ''&'', CHR '';'', CHR ''='', CHR ''%'', CHR ''+''}"
proof -
  from assms have "k \<in> set [0..<16]" by simp
  with hex_table have "unhex (upperhex k) = k \<and> ishex (upperhex k) \<and>
      upperhex k \<notin> {CHR ''&'', CHR '';'', CHR ''='', CHR ''%'', CHR ''+''}"
    unfolding list_all_iff by blast
  then show "unhex (upperhex k) = k" and "ishex (upperhex k)"
    and "upperhex k \<notin> {CHR ''&'', CHR '';'', CHR ''='', CHR ''%'', CHR ''+''}"
    by blast+
qed


lemma of_char_lt: "(of_char c :: nat) < 256"
  by (cases c) simp

lemma of_char_div16: "(of_char c :: nat) div 16 < 16"
  using of_char_lt [of c] by arith

lemma unescape_escape_char:
  "char_of (unhex (upperhex (of_char c div 16)) * 16 + unhex (upperhex (of_char c mod 16))) = c"
  by (simp add: upperhex_props(1) of_char_div16)


lemma shouldEscape_query_table:
  "list_all (\<lambda>c. shouldEscape c encodeQueryComponent) ''&;=%+ ''"
  by code_simp

lemma shouldEscape_query_special:
  "c \<in> {CHR ''&'', CHR '';'', CHR ''='', CHR ''%'', CHR ''+'', CHR '' ''}
     \<Longrightarrow> shouldEscape c encodeQueryComponent"
  using shouldEscape_query_table unfolding list_all_iff by auto


lemma QueryUnescape_QueryEscape: "QueryUnescape (QueryEscape s) = Inr s"
  unfolding QueryUnescape_def QueryEscape_def
proof (induction s)
  case Nil
  show ?case by simp
next
  case (Cons c s)
  show ?case
  proof (cases "shouldEscape c encodeQueryComponent")
    case True
    then show ?thesis
      using Cons by (simp add: unescape_escape_char upperhex_props(2) of_char_div16)
  next
    case False
    with shouldEscape_query_special [of c] have "c \<noteq> CHR ''%''" "c \<noteq> CHR ''+''"
      by auto
    with False Cons show ?thesis
      by simp
  qed
qed

lemma QueryEscape_safe:
  "c \<in> set (QueryEscape s) \<Longrightarrow> c \<notin> {CHR ''&'', CHR '';'', CHR ''=''}"
  unfolding QueryEscape_def
proof (induction s)
  case Nil
  then show ?case by simp
next
  case (Cons a s)
  show ?case
  proof (cases "shouldEscape a encodeQueryComponent")
    case True
    with Cons upperhex_props(3) [OF of_char_div16 [of a]]
      upperhex_props(3) [of "of_char a mod 16"]
    show ?thesis
      by (auto split: if_splits)
  next
    case False
    with Cons shouldEscape_query_special [of a] show ?thesis
      by auto
  qed
qed


lemma values_add_greater:
  "\<forall>k' \<in> fst ` set m. k' < k \<Longrightarrow> values_add m k x = m @ [(k, [x])]"
  by (induction m) (auto)

lemma values_add_last:
  "\<forall>k' \<in> fst ` set m. k' < k \<Longrightarrow> values_add (m @ [(k, xs)]) k x = m @ [(k, xs @ [x])]"
  by (induction m) (auto)

lemma foldl_values_add_key:
  "\<forall>k' \<in> fst ` set m. k' < k \<Longrightarrow>
     foldl (\<lambda>m p. values_add m (fst p) (snd p)) (m @ [(k, xs)]) (map (Pair k) ys) = m @ [(k, xs @ ys)]"
  by (induction ys arbitrary: xs) (simp_all add: values_add_last)

lemma foldl_values_add_settings:
  "canonical (m @ v) \<Longrightarrow>
     foldl (\<lambda>m p. values_add m (fst p) (snd p)) m (settings v) = m @ v"
proof (induction v arbitrary: m)
  case Nil
  then show ?case by (simp add: settings_def)
next
  case (Cons e v)
  obtain k vs where e: "e = (k, vs)" by (cases e)
  from Cons.prems e have less: "\<forall>k' \<in> fst ` set m. k' < k" and ne: "vs \<noteq> []"
    by (auto simp: canonical_def sorted_wrt_append)
  from ne obtain x xs where vs: "vs = x # xs" by (cases vs) auto
  have "foldl (\<lambda>m p. values_add m (fst p) (snd p)) m (map (Pair k) vs) = m @ [(k, vs)]"
    using foldl_values_add_key [OF less, of "[x]" xs] less
    by (simp add: vs values_add_greater)
  moreover have "canonical ((m @ [(k, vs)]) @ v)"
    using Cons.prems e by simp
  ultimately show ?case
    using Cons.IH [of "m @ [(k, vs)]"] by (simp add: settings_def e)
qed

lemma cut_found: "sep \<notin> set a \<Longrightarrow> cut sep (a @ sep # b) = (a, b, True)"
  by (induction a) auto

lemma cut_not_found: "sep \<notin> set a \<Longrightarrow> cut sep a = (a, [], False)"
  by (induction a) auto

lemma encode_setting_facts:
  "CHR ''&'' \<notin> set (encode_setting p)" "CHR '';'' \<notin> set (encode_setting p)"
  "encode_setting p \<noteq> []"
  "cut CHR ''='' (encode_setting p) = (QueryEscape (fst p), QueryEscape (snd p), True)"
  using QueryEscape_safe [of _ "fst p"] QueryEscape_safe [of _ "snd p"]
  by (auto simp: encode_setting_def intro!: cut_found)

lemma parseQuery_step:
  "parseQuery m err (encode_setting p @ CHR ''&'' # rest) =
     parseQuery (values_add m (fst p) (snd p)) err rest"
  by (subst parseQuery.simps)
     (simp add: cut_found encode_setting_facts QueryUnescape_QueryEscape)

lemma parseQuery_last:
  "parseQuery m err (encode_setting p) = (values_add m (fst p) (snd p), err)"
  by (subst parseQuery.simps, simp add: cut_not_found encode_setting_facts QueryUnescape_QueryEscape)
     (subst parseQuery.simps, simp)

lemma parseQuery_join:
  "parseQuery m err (join_amp (map encode_setting ps)) =
     (foldl (\<lambda>m p. values_add m (fst p) (snd p)) m ps, err)"
proof (induction ps arbitrary: m)
  case Nil
  show ?case by (subst parseQuery.simps) simp
next
  case (Cons p ps)
  show ?case
  proof (cases ps)
    case Nil
    then show ?thesis by (simp add: parseQuery_last)
  next
    case (Cons q qs)
    with Cons.IH show ?thesis by (simp add: parseQuery_step)
  qed
qed

lemma encode_settings_map:
  "encode_settings (QueryEscape k) vs = map encode_setting (map (Pair k) vs)"
  by (induction vs) (simp_all add: encode_setting_def)

lemma Values_Encode_settings: "Values_Encode v = join_amp (map encode_setting (settings v))"
proof -
  have "concat (map (\<lambda>(k, vs). encode_settings (QueryEscape k) vs) v) =
        map encode_setting (settings v)"
    by (induction v) (auto simp: settings_def encode_settings_map)
  then show ?thesis by (simp add: Values_Encode_def)
qed

lemma ParseQuery_Values_Encode: "canonical v \<Longrightarrow> ParseQuery (Values_Encode v) = (v, None)"
  using foldl_values_add_settings [of "[]" v]
  by (simp add: ParseQuery_def Values_Encode_settings parseQuery_join)


lemma fst_set_values_add: "fst ` set (values_add m k x) = insert k (fst ` set m)"
proof (induction m)
  case Nil
  show ?case by simp
next
  case (Cons e m)
  then show ?case by (cases e) (simp add: insert_commute)
qed

lemma canonical_values_add: "canonical m \<Longrightarrow> canonical (values_add m k x)"
proof (induction m)
  case Nil
  then show ?case by (simp add: canonical_def)
next
  case (Cons e m)
  obtain k' vs where e: "e = (k', vs)" by (cases e)
  from Cons.prems have "canonical m" by (auto simp: canonical_def)
  with Cons.IH have IH: "canonical (values_add m k x)" .
  show ?case
    using Cons.prems IH fst_set_values_add [of m k x]
    by (auto simp: canonical_def e)
qed

lemma fst_set_Values_Set: "fst ` set (Values_Set m k x) = insert k (fst ` set m)"
proof (induction m)
  case Nil
  show ?case by simp
next
  case (Cons e m)
  then show ?case by (cases e) (simp add: insert_commute)
qed

lemma canonical_Values_Set: "canonical m \<Longrightarrow> canonical (Values_Set m k x)"
proof (induction m)
  case Nil
  then show ?case by (simp add: canonical_def)
next
  case (Cons e m)
  obtain k' vs where e: "e = (k', vs)" by (cases e)
  from Cons.prems have "canonical m" by (auto simp: canonical_def)
  with Cons.IH have IH: "canonical (Values_Set m k x)" .
  show ?case
    using Cons.prems IH fst_set_Values_Set [of m k x]
    by (auto simp: canonical_def e)
qed

lemma canonical_parseQuery: "canonical m \<Longrightarrow> canonical (fst (parseQuery m err query))"
proof (induction m err query rule: parseQuery.induct)
  case (1 m err query)
  show ?case
  proof (cases "query = []")
    case True
    with "1.prems" show ?thesis by (subst parseQuery.simps) simp
  next
    case False
    obtain key rest f where c: "cut CHR ''&'' query = (key, rest, f)"
      by (cases "cut CHR ''&'' query") auto
    obtain key' val f' where c': "cut CHR ''='' key = (key', val, f')"
      by (cases "cut CHR ''='' key") auto
    show ?thesis
      using False c c' "1.prems" "1.IH"
      by (subst parseQuery.simps)
         (auto simp: canonical_values_add split: sum.splits)
  qed
qed

lemma canonical_Query: "canonical (Query u)"
  using canonical_parseQuery [of "[]"]
  by (simp add: Query_def ParseQuery_def canonical_def)

lemma map_of_Values_Set: "map_of (Values_Set m k x) = (map_of m)(k \<mapsto> [x])"
  by (induction m) (auto simp: fun_upd_twist)


lemma Query_Values_Encode:
  "canonical v \<Longrightarrow> Query (u\<lparr>RawQuery := Values_Encode v\<rparr>) = v"
  by (simp add: Query_def ParseQuery_Values_Encode)

lemmas eval_query =
  Query_def ParseQuery_def parseQuery.simps QueryUnescape_def QueryEscape_def
  Values_Encode_def shouldEscape_def isAlnum_def byte_in_def

lemma redactAPIKey_Some:
  "redactAPIKey h (Some a) =
     Inr (h\<lparr>urls := (urls h)(a := (urls h a)
            \<lparr>RawQuery := Values_Encode (Values_Set (Query (urls h a)) ''api_key'' ''REDACTED'')\<rparr>)\<rparr>,
          Some a)"
  by (simp add: redactAPIKey_def)

lemma Query_redacted:
  "Query (u\<lparr>RawQuery := Values_Encode (Values_Set (Query u) ''api_key'' ''REDACTED'')\<rparr>) =
     Values_Set (Query u) ''api_key'' ''REDACTED''"
  by (simp add: Query_Values_Encode canonical_Values_Set canonical_Query)

lemma redactAPIKey_resps: "redactAPIKey h url = Inr (h', p) \<Longrightarrow> resps h' = resps h"
  by (auto simp: redactAPIKey_def split: option.splits)

lemma Error_Some:
  assumes "Response r = Some ra" "Request (resps h ra) = Some req" "URL req = Some a"
    and "redactAPIKey h (Some a) = Inr (h', Some a)"
  shows "Error table h r =
           Inr (h', Method req @ '' '' @ URL_String (urls h' a) @ '': '' @
                    fmt_d (StatusCode (resps h ra)) @ '' '' @ Quote table (Message r))"
  using assms redactAPIKey_resps [OF assms(4)] by (simp add: Error_def)

lemma Query_example: "Query example_URL = [(''api_key'', [''SECRET''])]"
  by (simp add: eval_query example_URL_def)

lemma redactAPIKey_example: "redactAPIKey example_heap (Some 0) = Inr (redacted_heap, Some 0)"
proof -
  have "urls example_heap 0 = example_URL" by (simp add: example_heap_def)
  then show ?thesis
    unfolding redactAPIKey_Some redacted_heap_def
    by (simp add: Query_example Values_Encode_def QueryEscape_def shouldEscape_def
        isAlnum_def byte_in_def)
qed

lemma Quote_example: "Quote table ''Nope Nope Nope'' = dquote # ''Nope Nope Nope'' @ [dquote]"
  by (simp add: Quote_def DecodeRuneInString_def appendEscapedRune_def IsPrint_def EncodeRune_def
      dquote_def backslash_def RuneError_def char_of_eq_iff)

lemma fmt_d_400: "fmt_d 400 = ''400''"
  by (simp add: fmt_d_def decimal.simps char_of_eq_iff)

lemma URL_String_example:
  "URL_String (example_URL\<lparr>RawQuery := ''api_key=REDACTED''\<rparr>) =
     ''https://service/api/pypi/poyo?api_key=REDACTED''"
  by (simp add: URL_String_def example_URL_def authority_String_def EscapedPath_def
      shouldEscape_def isAlnum_def byte_in_def)

lemma Error_example: "Error table example_heap example_error = Inr (redacted_heap, example_rendering)"
proof -
  have "Error table example_heap example_error =
          Inr (redacted_heap, Method example_request @ '' '' @ URL_String (urls redacted_heap 0) @
               '': '' @ fmt_d (StatusCode (resps example_heap 0)) @ '' '' @
               Quote table (Message example_error))"
    by (rule Error_Some [OF _ _ _ redactAPIKey_example])
       (simp_all add: example_error_def example_heap_def example_response_def example_request_def)
  moreover have "urls redacted_heap 0 = example_URL\<lparr>RawQuery := ''api_key=REDACTED''\<rparr>"
    by (simp add: redacted_heap_def)
  ultimately show ?thesis
    by (simp add: URL_String_example Quote_example fmt_d_400 example_rendering_def
        example_heap_def example_response_def example_request_def example_error_def)
qed

section \<open>Claims about redactAPIKey\<close>

text \<open>
  Claim C9.  When the query of a URL has no \<^verbatim>\<open>api_key\<close> parameter at all,
  \<^verbatim>\<open>redactAPIKey\<close> inserts one: the call succeeds, the query of the URL it leaves behind has
  \<^verbatim>\<open>api_key\<close> set to the single value \<^verbatim>\<open>REDACTED\<close>, and that query differs from the one
  that came in, as parsed parameters and as raw text.
\<close>

theorem redactAPIKey_inserts_api_key:
  assumes "''api_key'' \<notin> fst ` set (Query (urls h a))"
  shows "\<exists>h'. redactAPIKey h (Some a) = Inr (h', Some a) \<and>
           map_of (Query (urls h' a)) ''api_key'' = Some [''REDACTED''] \<and>
           Query (urls h' a) \<noteq> Query (urls h a) \<and>
           RawQuery (urls h' a) \<noteq> RawQuery (urls h a)"
proof -
  let ?q = "Query (urls h a)"
  let ?u' = "(urls h a)\<lparr>RawQuery := Values_Encode (Values_Set ?q ''api_key'' ''REDACTED'')\<rparr>"
  let ?h' = "h\<lparr>urls := (urls h)(a := ?u')\<rparr>"
  have u': "urls ?h' a = ?u'" by simp
  have q': "Query ?u' = Values_Set ?q ''api_key'' ''REDACTED''"
    by (rule Query_redacted)
  have "''api_key'' \<in> fst ` set (Query ?u')"
    unfolding q' fst_set_Values_Set by simp
  with assms have ne: "Query ?u' \<noteq> ?q" by auto
  then have raw: "RawQuery ?u' \<noteq> RawQuery (urls h a)"
    unfolding Query_def by auto
  have m: "map_of (Query ?u') ''api_key'' = Some [''REDACTED'']"
    unfolding q' map_of_Values_Set by simp
  show ?thesis
  proof (intro exI [of _ ?h'] conjI)
    show "redactAPIKey h (Some a) = Inr (?h', Some a)"
      by (rule redactAPIKey_Some)
    show "map_of (Query (urls ?h' a)) ''api_key'' = Some [''REDACTED'']"
      unfolding u' by (rule m)
    show "Query (urls ?h' a) \<noteq> Query (urls h a)"
      unfolding u' by (rule ne)
    show "RawQuery (urls ?h' a) \<noteq> RawQuery (urls h a)"
      unfolding u' by (rule raw)
  qed
qed

theorem redactAPIKey_inserts_api_key_witness:
  "''api_key'' \<notin> fst ` set (Query (urls (example_heap\<lparr>urls := \<lambda>_. example_URL\<lparr>RawQuery := ''q=go''\<rparr>\<rparr>) 0)) \<and>
   (\<exists>h'. redactAPIKey (example_heap\<lparr>urls := \<lambda>_. example_URL\<lparr>RawQuery := ''q=go''\<rparr>\<rparr>) (Some 0) = Inr (h', Some 0) \<and>
      map_of (Query (urls h' 0)) ''api_key'' = Some [''REDACTED''] \<and>
      RawQuery (urls h' 0) = ''api_key=REDACTED&q=go'')"
proof -
  let ?h = "example_heap\<lparr>urls := \<lambda>_. example_URL\<lparr>RawQuery := ''q=go''\<rparr>\<rparr>"
  have q: "Query (urls ?h 0) = [(''q'', [''go''])]"
    by (simp add: eval_query example_URL_def example_heap_def)
  then have hyp: "''api_key'' \<notin> fst ` set (Query (urls ?h 0))" by simp
  from redactAPIKey_inserts_api_key [OF hyp] obtain h' where
    h': "redactAPIKey ?h (Some 0) = Inr (h', Some 0)"
        "map_of (Query (urls h' 0)) ''api_key'' = Some [''REDACTED'']"
    by blast
  from h'(1) q have "RawQuery (urls h' 0) = ''api_key=REDACTED&q=go''"
    by (auto simp: redactAPIKey_Some eval_query)
  with hyp h' show ?thesis by blast
qed




section \<open>Claims about ErrorResponse.Error\<close>



text \<open>
  Claim C2 says that \<^verbatim>\<open>redactAPIKey\<close> does not change the URL object it is given, and that
  rendering an \<^verbatim>\<open>ErrorResponse\<close> leaves the URL of the request as it was.  On the example
  both write \<^verbatim>\<open>api_key=REDACTED\<close> into the URL object of the request, at address 0.
\<close>

theorem redactAPIKey_mutates_counterexample:
  "redactAPIKey example_heap (Some 0) = Inr (redacted_heap, Some 0) \<and>
   Error no_table example_heap example_error = Inr (redacted_heap, example_rendering) \<and>
   Request (resps example_heap 0) = Some example_request \<and>
   URL example_request = Some 0 \<and>
   RawQuery (urls example_heap 0) = ''api_key=SECRET'' \<and>
   RawQuery (urls redacted_heap 0) = ''api_key=REDACTED'' \<and>
   urls redacted_heap 0 \<noteq> urls example_heap 0"
  by (simp add: redactAPIKey_example Error_example)
     (simp add: example_heap_def redacted_heap_def example_URL_def example_response_def
        example_request_def)

text \<open>
  Claim C2, amended.  \<^verbatim>\<open>redactAPIKey\<close> overwrites the \<^verbatim>\<open>RawQuery\<close> of the URL object it is
  given, in place, and returns the pointer it was given; every other URL object, every
  response and the allocation counters are left alone.  When \<^verbatim>\<open>Error\<close> returns, the store
  it leaves is the store of \<^verbatim>\<open>redactAPIKey\<close> applied to the URL of the request.
\<close>

theorem redactAPIKey_overwrites_in_place:
  "(redactAPIKey h (Some a) = Inr (h', p) \<longrightarrow>
      p = Some a \<and>
      urls h' a = (urls h a)
        \<lparr>RawQuery := Values_Encode (Values_Set (Query (urls h a)) ''api_key'' ''REDACTED'')\<rparr> \<and>
      (\<forall>b. b \<noteq> a \<longrightarrow> urls h' b = urls h b) \<and>
      resps h' = resps h \<and> next_url h' = next_url h \<and> next_resp h' = next_resp h) \<and>
   (Error table h r = Inr (h'', s) \<longrightarrow>
      (\<exists>ra req. Response r = Some ra \<and> Request (resps h ra) = Some req \<and>
         redactAPIKey h (URL req) = Inr (h'', URL req)))"
proof (rule conjI; rule impI)
  assume "redactAPIKey h (Some a) = Inr (h', p)"
  then show "p = Some a \<and>
      urls h' a = (urls h a)
        \<lparr>RawQuery := Values_Encode (Values_Set (Query (urls h a)) ''api_key'' ''REDACTED'')\<rparr> \<and>
      (\<forall>b. b \<noteq> a \<longrightarrow> urls h' b = urls h b) \<and>
      resps h' = resps h \<and> next_url h' = next_url h \<and> next_resp h' = next_resp h"
    unfolding redactAPIKey_Some by auto
next
  assume "Error table h r = Inr (h'', s)"
  then show "\<exists>ra req. Response r = Some ra \<and> Request (resps h ra) = Some req \<and>
         redactAPIKey h (URL req) = Inr (h'', URL req)"
    by (auto simp: Error_def redactAPIKey_def split: option.splits sum.splits)
qed

theorem redactAPIKey_overwrites_in_place_witness:
  "redactAPIKey example_heap (Some 0) = Inr (redacted_heap, Some 0) \<and>
   Error no_table example_heap example_error = Inr (redacted_heap, example_rendering) \<and>
   RawQuery (urls redacted_heap 0) = ''api_key=REDACTED'' \<and>
   ((1::nat) \<noteq> 0 \<and> urls redacted_heap 1 = urls example_heap 1) \<and>
   resps redacted_heap = resps example_heap \<and>
   (\<exists>ra req. Response example_error = Some ra \<and> Request (resps example_heap ra) = Some req \<and>
      redactAPIKey example_heap (URL req) = Inr (redacted_heap, URL req))"
  using redactAPIKey_overwrites_in_place
    [of example_heap 0 redacted_heap "Some 0" no_table example_error redacted_heap example_rendering]
  by (simp add: redactAPIKey_example Error_example)
     (auto simp: redacted_heap_def example_heap_def example_URL_def)

end
